theory Spec2Isabelle
  imports Main "HOL-Library.Word"
begin

section \<open>The Marathon client: request dispatch (client.go)\<close>

text \<open>
  The embedding follows \<^verbatim>\<open>client.go\<close>. The functions of the Go standard library that
  \<^verbatim>\<open>apiCall\<close> calls (\<^verbatim>\<open>json.Marshal\<close>, \<^verbatim>\<open>http.NewRequest\<close>, \<^verbatim>\<open>http.Client.Do\<close>,
  \<^verbatim>\<open>ioutil.ReadAll\<close>, \<^verbatim>\<open>json.Unmarshal\<close>) and the cluster of the client
  (\<^verbatim>\<open>Cluster.GetMember\<close>, declared in another file of the package) are parameters of the
  model, collected in the record \<open>env\<close>: every theorem holds for whatever these return.
  Each call that has an effect outside the function is written to a trace, so that what
  the function did not do can be stated.
\<close>

subsection \<open>Errors\<close>

text \<open>
  The seven error values of the \<^verbatim>\<open>var\<close> block are each made once by \<^verbatim>\<open>errors.New\<close>, and
  Go compares errors by identity. An error made elsewhere (by \<^verbatim>\<open>encoding/json\<close>,
  \<^verbatim>\<open>net/http\<close>, \<^verbatim>\<open>net/url\<close>, \<^verbatim>\<open>io\<close>, or a fresh \<^verbatim>\<open>errors.New\<close>) is none of the seven: it is a
  \<open>Foreign\<close> value. The flag of \<open>URLError\<close> and \<open>IOError\<close> is what the error's
  \<^verbatim>\<open>Timeout()\<close> method answers.
\<close>

datatype foreign =
    JSONError string
  | URLError string bool
  | IOError string bool
  | OtherError string

datatype error =
    ErrInvalidEndpoint
  | ErrInvalidResponse
  | ErrDoesNotExist
  | ErrMarathonDown
  | ErrInvalidArgument
  | ErrTimeoutError
  | ErrConflict
  | Foreign foreign

subsection \<open>Data\<close>

type_synonym bytes = string

text \<open>The fields of \<^verbatim>\<open>Config\<close> that client.go reads.\<close>

record Config =
  URL :: string
  RequestTimeout :: int
  HTTPBasicAuthUser :: string
  HTTPBasicPassword :: string

text \<open>\<^verbatim>\<open>http.Client\<close>: the timeout is a \<^verbatim>\<open>time.Duration\<close>, an int64 of nanoseconds.\<close>

record httpClient =
  Timeout :: "64 word"

text \<open>
  \<^verbatim>\<open>marathonClient\<close>, with the fields that the functions modelled here read or write;
  \<open>'c\<close> is the state of the cluster.
\<close>

record 'c marathonClient =
  config :: Config
  subscribedToSSE :: bool
  ipAddress :: string
  httpClient :: httpClient
  cluster :: 'c

text \<open>\<^verbatim>\<open>http.Header\<close> is a \<^verbatim>\<open>map[string][]string\<close>.\<close>

type_synonym header = "string \<rightharpoonup> string list"

record request =
  Method :: string
  ReqURL :: string
  Header :: header
  ReqBody :: bytes

text \<open>
  \<^verbatim>\<open>http.Response\<close>: the status code, and what reading the body stream to its end gives
  (\<^verbatim>\<open>ioutil.ReadAll(response.Body)\<close>).
\<close>

record response =
  StatusCode :: int
  Body :: "foreign + bytes"

text \<open>The calls of \<^verbatim>\<open>apiCall\<close> that act outside the function, in the order made.\<close>

datatype event =
    EvGetMember
  | EvMarshal
  | EvNewRequest string string bytes
  | EvDo request
  | EvReadAll
  | EvLog
  | EvUnmarshal
  | EvClose

text \<open>
  The collaborators. \<open>'v\<close> is the type of the Go values passed as \<^verbatim>\<open>body\<close> and as
  \<^verbatim>\<open>result\<close> (for \<^verbatim>\<open>result\<close>: the state of the object the interface refers to).
  \<^item> \<open>GetMember\<close>: \<^verbatim>\<open>r.cluster.GetMember()\<close>, which returns a member or an error and may
    change the cluster;
  \<^item> \<open>Marshal\<close>: \<^verbatim>\<open>json.Marshal\<close>;
  \<^item> \<open>requestError\<close>: the error of \<^verbatim>\<open>http.NewRequest\<close> for a method and a URL, if any;
  \<^item> \<open>basicAuth\<close>: the encoding of a user and a password by \<^verbatim>\<open>SetBasicAuth\<close>;
  \<^item> \<open>Do\<close>: \<^verbatim>\<open>httpClient.Do\<close>, the exchange (with the redirects that the HTTP client
    follows), under the client's timeout;
  \<^item> \<open>Unmarshal\<close>: \<^verbatim>\<open>json.Unmarshal\<close>, which returns an error or none, and the state
    it leaves the destination in (on an error it may have written a part of it);
  \<^item> \<open>newCluster\<close>: \<^verbatim>\<open>newCluster\<close> of the package, used by \<^verbatim>\<open>NewClient\<close>;
  \<^item> \<open>marathonAPIPing\<close>: the constant of the package naming the ping path.
\<close>

record ('v, 'c) env =
  GetMember :: "'c \<Rightarrow> (error + string) \<times> 'c"
  Marshal :: "'v \<Rightarrow> foreign + bytes"
  requestError :: "string \<Rightarrow> string \<Rightarrow> foreign option"
  basicAuth :: "string \<Rightarrow> string \<Rightarrow> string"
  Do :: "httpClient \<Rightarrow> request \<Rightarrow> foreign + response"
  Unmarshal :: "bytes \<Rightarrow> 'v \<Rightarrow> foreign option \<times> 'v"
  newCluster :: "string \<Rightarrow> error + 'c"
  marathonAPIPing :: string

text \<open>
  What a call of \<^verbatim>\<open>apiCall\<close> leaves behind: the error returned (\<open>None\<close> is \<^verbatim>\<open>nil\<close>), the
  state of the result object, the state of the cluster, and the trace of the calls made.
\<close>

record ('v, 'c) outcome =
  err :: "error option"
  sink :: "'v option"
  clusterAfter :: 'c
  trace :: "event list"

subsection \<open>The standard library's request and header operations\<close>

text \<open>\<^verbatim>\<open>Header.Add\<close> appends a value to those of the key, \<^verbatim>\<open>Header.Set\<close> replaces them.\<close>

definition headerAdd :: "header \<Rightarrow> string \<Rightarrow> string \<Rightarrow> header" where
  "headerAdd h k v = h(k \<mapsto> (case h k of None \<Rightarrow> [] | Some vs \<Rightarrow> vs) @ [v])"

definition headerSet :: "header \<Rightarrow> string \<Rightarrow> string \<Rightarrow> header" where
  "headerSet h k v = h(k \<mapsto> [v])"

text \<open>
  \<^verbatim>\<open>http.NewRequest\<close>: an error for a bad method or URL, else a request with an empty
  header; an empty method means GET.
\<close>

definition NewRequest :: "('v, 'c) env \<Rightarrow> string \<Rightarrow> string \<Rightarrow> bytes \<Rightarrow> foreign + request" where
  "NewRequest env method url b =
     (case requestError env method url of
        Some e \<Rightarrow> Inl e
      | None \<Rightarrow> Inr \<lparr>Method = (if method = [] then ''GET'' else method), ReqURL = url,
                     Header = Map.empty, ReqBody = b\<rparr>)"

text \<open>\<^verbatim>\<open>Request.SetBasicAuth\<close> sets the Authorization header.\<close>

definition SetBasicAuth :: "('v, 'c) env \<Rightarrow> request \<Rightarrow> string \<Rightarrow> string \<Rightarrow> request" where
  "SetBasicAuth env req username password =
     req\<lparr>Header := headerSet (Header req) ''Authorization''
                     (''Basic '' @ basicAuth env username password)\<rparr>"

subsection \<open>apiCall\<close>

text \<open>Lines 229 to 235: the body is serialised only when it is not nil.\<close>

definition marshalBody :: "('v, 'c) env \<Rightarrow> 'v option \<Rightarrow> foreign + bytes" where
  "marshalBody env body = (case body of None \<Rightarrow> Inr [] | Some b \<Rightarrow> Marshal env b)"

text \<open>Lines 243 to 248: basic auth when a user name is configured, then the two headers.\<close>

definition addHeaders :: "('v, 'c) env \<Rightarrow> 'c marathonClient \<Rightarrow> request \<Rightarrow> request" where
  "addHeaders env r request0 =
     (let request1 = (if HTTPBasicAuthUser (config r) \<noteq> []
                      then SetBasicAuth env request0 (HTTPBasicAuthUser (config r))
                             (HTTPBasicPassword (config r))
                      else request0);
          request2 = request1\<lparr>Header := headerAdd (Header request1) ''Content-Type'' ''application/json''\<rparr>
      in request2\<lparr>Header := headerAdd (Header request2) ''Accept'' ''application/json''\<rparr>)"

text \<open>
  Lines 263 to 283, once the response and its body are there: the status decides, and a
  status from 200 to 299 decodes the body into the result when there is one. The value is
  the error returned, the state of the result, and the calls made (the deferred close of
  the body last).
\<close>

definition classify ::
  "('v, 'c) env \<Rightarrow> int \<Rightarrow> bytes \<Rightarrow> 'v option \<Rightarrow> error option \<times> 'v option \<times> event list" where
  "classify env status respBody result =
     (if 200 \<le> status \<and> status \<le> 299 then
        (case result of
           None \<Rightarrow> (None, None, [EvClose])
         | Some v \<Rightarrow>
             (case Unmarshal env respBody v of
                (Some e, v') \<Rightarrow> (Some ErrInvalidResponse, Some v', [EvUnmarshal, EvLog, EvClose])
              | (None, v') \<Rightarrow> (None, Some v', [EvUnmarshal, EvClose])))
      else if status = 404 then (Some ErrDoesNotExist, result, [EvClose])
      else if status = 409 then (Some ErrConflict, result, [EvClose])
      else if 500 \<le> status then (Some ErrInvalidResponse, result, [EvClose])
      else (Some ErrInvalidResponse, result, [EvLog, EvClose]))"

definition apiCall ::
  "('v, 'c) env \<Rightarrow> 'c marathonClient \<Rightarrow> string \<Rightarrow> string \<Rightarrow> 'v option \<Rightarrow> 'v option
     \<Rightarrow> ('v, 'c) outcome" where
  "apiCall env r method uri body result =
     (case GetMember env (cluster r) of
        (Inl e, cl) \<Rightarrow>
          \<lparr>err = Some e, sink = result, clusterAfter = cl, trace = [EvGetMember]\<rparr>
      | (Inr marathon, cl) \<Rightarrow>
          (let url = marathon @ ''/'' @ uri;
               t1 = EvGetMember # (case body of None \<Rightarrow> [] | Some b \<Rightarrow> [EvMarshal])
           in case marshalBody env body of
                Inl e \<Rightarrow>
                  \<lparr>err = Some (Foreign e), sink = result, clusterAfter = cl, trace = t1\<rparr>
              | Inr jsonBody \<Rightarrow>
                  (let t2 = t1 @ [EvNewRequest method url jsonBody]
                   in case NewRequest env method url jsonBody of
                        Inl e \<Rightarrow>
                          \<lparr>err = Some (Foreign e), sink = result, clusterAfter = cl, trace = t2\<rparr>
                      | Inr request0 \<Rightarrow>
                          (let request = addHeaders env r request0;
                               t3 = t2 @ [EvDo request]
                           in case Do env (httpClient r) request of
                                Inl e \<Rightarrow>
                                  \<lparr>err = Some (Foreign e), sink = result, clusterAfter = cl,
                                   trace = t3\<rparr>
                              | Inr response \<Rightarrow>
                                  (case Body response of
                                     Inl e \<Rightarrow>
                                       \<lparr>err = Some (Foreign e), sink = result, clusterAfter = cl,
                                        trace = t3 @ [EvReadAll, EvClose]\<rparr>
                                   | Inr respBody \<Rightarrow>
                                       (case classify env (StatusCode response) respBody result of
                                          (e, s, t) \<Rightarrow>
                                            \<lparr>err = e, sink = s, clusterAfter = cl,
                                             trace = t3 @ [EvReadAll, EvLog] @ t\<rparr>))))))"

definition apiGet ::
  "('v, 'c) env \<Rightarrow> 'c marathonClient \<Rightarrow> string \<Rightarrow> 'v option \<Rightarrow> 'v option \<Rightarrow> ('v, 'c) outcome" where
  "apiGet env r uri post result = apiCall env r ''GET'' uri post result"

definition apiPut ::
  "('v, 'c) env \<Rightarrow> 'c marathonClient \<Rightarrow> string \<Rightarrow> 'v option \<Rightarrow> 'v option \<Rightarrow> ('v, 'c) outcome" where
  "apiPut env r uri post result = apiCall env r ''PUT'' uri post result"

definition apiPost ::
  "('v, 'c) env \<Rightarrow> 'c marathonClient \<Rightarrow> string \<Rightarrow> 'v option \<Rightarrow> 'v option \<Rightarrow> ('v, 'c) outcome" where
  "apiPost env r uri post result = apiCall env r ''POST'' uri post result"

definition apiDelete ::
  "('v, 'c) env \<Rightarrow> 'c marathonClient \<Rightarrow> string \<Rightarrow> 'v option \<Rightarrow> 'v option \<Rightarrow> ('v, 'c) outcome" where
  "apiDelete env r uri post result = apiCall env r ''DELETE'' uri post result"

subsection \<open>Ping and NewClient\<close>

text \<open>\<^verbatim>\<open>Ping\<close> returns a pair of a bool and an error.\<close>

definition Ping :: "('v, 'c) env \<Rightarrow> 'c marathonClient \<Rightarrow> bool \<times> error option" where
  "Ping env r =
     (case err (apiGet env r (marathonAPIPing env) None None) of
        Some e \<Rightarrow> (False, Some e)
      | None \<Rightarrow> (True, None))"

text \<open>
  \<^verbatim>\<open>NewClient\<close>: the timeout is \<^verbatim>\<open>time.Duration(config.RequestTimeout) * time.Second\<close>, a
  product of int64 values, which wraps.
\<close>

definition NewClient :: "('v, 'c) env \<Rightarrow> Config \<Rightarrow> error + 'c marathonClient" where
  "NewClient env cfg =
     (case newCluster env (URL cfg) of
        Inl e \<Rightarrow> Inl e
      | Inr cl \<Rightarrow>
          Inr \<lparr>config = cfg, subscribedToSSE = False, ipAddress = [],
               httpClient = \<lparr>Timeout = word_of_int (RequestTimeout cfg) * 1000000000\<rparr>,
               cluster = cl\<rparr>)"

subsection \<open>Reading a trace\<close>


subsection \<open>A concrete client and concrete collaborators\<close>

text \<open>
  One instance of the parameters, on which the theorems below are run: a cluster that
  hands out one member and counts the calls, a serialiser that rejects the value
  \<open>NaN\<close>, a decoder that accepts a body starting with a brace and stores it, and an
  exchange whose result \<open>d\<close> is chosen by each example.
\<close>

definition testEnv :: "(foreign + response) \<Rightarrow> (string, nat) env" where
  "testEnv d =
     \<lparr>GetMember = (\<lambda>n. (Inr ''http://10.0.0.1:8080'', Suc n)),
      Marshal = (\<lambda>v. if v = ''NaN'' then Inl (JSONError ''json: unsupported value: NaN'')
                      else Inr v),
      requestError = (\<lambda>m u. None),
      basicAuth = (\<lambda>u p. u @ '':'' @ p),
      Do = (\<lambda>hc req. d),
      Unmarshal = (\<lambda>b v. case b of
                             [] \<Rightarrow> (Some (JSONError ''unexpected end of JSON input''), v)
                           | c # cs \<Rightarrow> if c = CHR ''{'' then (None, b)
                                       else (Some (JSONError ''invalid character''), v)),
      newCluster = (\<lambda>u. Inr 0),
      marathonAPIPing = ''ping''\<rparr>"

definition testClient :: "nat marathonClient" where
  "testClient =
     \<lparr>config = \<lparr>URL = ''http://10.0.0.1:8080'', RequestTimeout = 5,
                 HTTPBasicAuthUser = ''admin'', HTTPBasicPassword = ''secret''\<rparr>,
      subscribedToSSE = False, ipAddress = [],
      httpClient = \<lparr>Timeout = 5000000000\<rparr>, cluster = 0\<rparr>"

text \<open>The request that \<^verbatim>\<open>http.NewRequest\<close> gives for a GET of \<open>v2/apps/app1\<close> there.\<close>

definition testRequest :: request where
  "testRequest =
     \<lparr>Method = ''GET'', ReqURL = ''http://10.0.0.1:8080/v2/apps/app1'',
      Header = Map.empty, ReqBody = []\<rparr>"

subsection \<open>Redirects inside one call of the HTTP client\<close>

text \<open>
  \<^verbatim>\<open>NewClient\<close> (lines 183 to 185) sets the timeout of the \<^verbatim>\<open>http.Client\<close> and nothing
  else, so the client has the redirect policy of \<^verbatim>\<open>net/http\<close>: one call of \<^verbatim>\<open>Do\<close> sends
  the request, and while the response is a redirect with a Location header it sends a
  further request to that location, for at most 10 requests in all. A \<open>transport\<close> is
  one HTTP exchange: for a request sent, an error or the response with its Location
  header (as an absolute URL) when it has one.
\<close>

type_synonym transport = "request \<Rightarrow> foreign + response \<times> string option"

text \<open>
  \<^verbatim>\<open>redirectBehavior\<close> of \<^verbatim>\<open>net/http\<close>: for the method of the request and the status of the
  response, the method of the next request and whether the body is sent again, when the
  response is a redirect.
\<close>

definition redirectBehavior :: "string \<Rightarrow> int \<Rightarrow> (string \<times> bool) option" where
  "redirectBehavior reqMethod status =
     (if status = 301 \<or> status = 302 \<or> status = 303
      then Some (if reqMethod = ''GET'' \<or> reqMethod = ''HEAD'' then reqMethod else ''GET'', False)
      else if status = 307 \<or> status = 308 then Some (reqMethod, True)
      else None)"

text \<open>
  The loop of \<^verbatim>\<open>Client.Do\<close>, with the number of requests it may still send: the result of
  the call, and the requests sent, one exchange each, in order.
\<close>

fun doFollowingRedirects ::
  "transport \<Rightarrow> nat \<Rightarrow> request \<Rightarrow> (foreign + response) \<times> request list" where
  "doFollowingRedirects send 0 req = (Inl (URLError ''stopped after 10 redirects'' False), [])"
| "doFollowingRedirects send (Suc n) req =
     (case send req of
        Inl e \<Rightarrow> (Inl e, [req])
      | Inr (resp, loc) \<Rightarrow>
          (case redirectBehavior (Method req) (StatusCode resp) of
             None \<Rightarrow> (Inr resp, [req])
           | Some (redirectMethod, includeBody) \<Rightarrow>
               (case loc of
                  None \<Rightarrow> (Inr resp, [req])
                | Some l \<Rightarrow>
                    (case doFollowingRedirects send n
                            \<lparr>Method = redirectMethod, ReqURL = l, Header = Header req,
                             ReqBody = (if includeBody then ReqBody req else [])\<rparr> of
                       (res, reqs) \<Rightarrow> (res, req # reqs)))))"

definition clientDo :: "transport \<Rightarrow> request \<Rightarrow> (foreign + response) \<times> request list" where
  "clientDo send req = doFollowingRedirects send 10 req"




section \<open>Properties\<close>

subsection \<open>Auxiliary facts\<close>

text \<open>
  Once a member, a serialised body, a request, a response and its body are there, the
  call is decided by the status.
\<close>

lemma apiCall_exchanged:
  assumes "GetMember env (cluster r) = (Inr marathon, cl)"
    and "marshalBody env body = Inr jsonBody"
    and "NewRequest env method (marathon @ ''/'' @ uri) jsonBody = Inr request0"
    and "Do env (httpClient r) (addHeaders env r request0) = Inr response"
    and "Body response = Inr respBody"
  shows "apiCall env r method uri body result =
           (case classify env (StatusCode response) respBody result of
              (e, s, t) \<Rightarrow>
                \<lparr>err = e, sink = s, clusterAfter = cl,
                 trace = (EvGetMember # (case body of None \<Rightarrow> [] | Some b \<Rightarrow> [EvMarshal]))
                    @ [EvNewRequest method (marathon @ ''/'' @ uri) jsonBody]
                    @ [EvDo (addHeaders env r request0)] @ [EvReadAll, EvLog] @ t\<rparr>)"
  using assms by (simp add: apiCall_def Let_def)



lemma classify_trace_Do:
  "classify env status respBody result = (e, s, t) \<Longrightarrow> EvDo req \<notin> set t"
  by (auto simp: classify_def split: option.splits prod.splits if_splits)

lemma NewRequest_Header: "NewRequest env method url b = Inr q \<Longrightarrow> Header q = Map.empty"
  by (auto simp: NewRequest_def split: option.splits)

lemma addHeaders_Header:
  assumes "Header q = Map.empty"
  shows "Header (addHeaders env r q) ''Content-Type'' = Some [''application/json'']"
    and "Header (addHeaders env r q) ''Accept'' = Some [''application/json'']"
    and "Header (addHeaders env r q) ''Authorization'' =
           (if HTTPBasicAuthUser (config r) \<noteq> []
            then Some [''Basic '' @ basicAuth env (HTTPBasicAuthUser (config r))
                                      (HTTPBasicPassword (config r))]
            else None)"
  using assms by (simp_all add: addHeaders_def SetBasicAuth_def headerAdd_def headerSet_def Let_def)

lemma apiCall_Do_request:
  assumes "EvDo req \<in> set (trace (apiCall env r method uri body result))"
  shows "\<exists>url b q. NewRequest env method url b = Inr q \<and> req = addHeaders env r q"
  using assms
  by (auto simp: apiCall_def Let_def dest: classify_trace_Do
           split: prod.splits sum.splits option.splits)

text \<open>One call of the HTTP client sends at most 10 requests.\<close>

lemma doFollowingRedirects_length:
  "doFollowingRedirects send n req = (res, reqs) \<Longrightarrow> length reqs \<le> n"
proof (induction n arbitrary: req res reqs)
  case 0
  then show ?case by simp
next
  case (Suc n)
  show ?case
  proof (cases reqs)
    case Nil
    then show ?thesis by simp
  next
    case (Cons q qs)
    with Suc.prems Suc.IH show ?thesis
      by (auto split: sum.splits prod.splits option.splits)
  qed
qed

lemma clientDo_length: "length (snd (clientDo send req)) \<le> 10"
  using doFollowingRedirects_length [of send 10 req] by (simp add: clientDo_def prod_eq_iff)

text \<open>The concrete instance, evaluated.\<close>

lemma test_GetMember:
  "GetMember (testEnv d) (cluster testClient) = (Inr ''http://10.0.0.1:8080'', 1)"
  by (simp add: testEnv_def testClient_def)

lemma test_marshalBody_None: "marshalBody (testEnv d) None = Inr []"
  by (simp add: marshalBody_def)

lemma test_NewRequest:
  "NewRequest (testEnv d) ''GET'' (''http://10.0.0.1:8080'' @ ''/'' @ ''v2/apps/app1'') []
     = Inr testRequest"
  by (simp add: NewRequest_def testEnv_def testRequest_def)

lemma test_Do: "Do (testEnv d) hc req = d"
  by (simp add: testEnv_def)

lemma test_Unmarshal_ok: "Unmarshal (testEnv d) ''{}'' v = (None, ''{}'')"
  by (simp add: testEnv_def)

lemma test_Unmarshal_bad:
  "Unmarshal (testEnv d) ''<html>'' v = (Some (JSONError ''invalid character''), v)"
  by (simp add: testEnv_def)

subsection \<open>Responses with a status from 200 to 299\<close>

text \<open>
  Claim C1. When the exchange gives a status from 200 to 299: with no result object
  (\<^verbatim>\<open>result\<close> is nil) \<^verbatim>\<open>apiCall\<close> returns nil and decodes nothing; with a result object
  and a body that \<^verbatim>\<open>json.Unmarshal\<close> decodes without an error, \<^verbatim>\<open>apiCall\<close> returns nil
  and the result object holds exactly what the decoder wrote.
\<close>

theorem apiCall_success:
  assumes "GetMember env (cluster r) = (Inr marathon, cl)"
    and "marshalBody env body = Inr jsonBody"
    and "NewRequest env method (marathon @ ''/'' @ uri) jsonBody = Inr request0"
    and "Do env (httpClient r) (addHeaders env r request0) = Inr response"
    and "Body response = Inr respBody"
    and "200 \<le> StatusCode response" and "StatusCode response \<le> 299"
  shows "(result = None \<longrightarrow>
            err (apiCall env r method uri body result) = None \<and>
            sink (apiCall env r method uri body result) = None \<and>
            EvUnmarshal \<notin> set (trace (apiCall env r method uri body result)))
       \<and> (\<forall>v v'. result = Some v \<and> Unmarshal env respBody v = (None, v') \<longrightarrow>
            err (apiCall env r method uri body result) = None \<and>
            sink (apiCall env r method uri body result) = Some v')"
  using assms(6,7)
  by (auto simp: apiCall_exchanged [OF assms(1-5)] classify_def split: option.splits)

theorem apiCall_success_witness:
  "err (apiCall (testEnv (Inr \<lparr>StatusCode = 200, Body = Inr ''{}''\<rparr>)) testClient
          ''GET'' ''v2/apps/app1'' None (Some [])) = None
   \<and> sink (apiCall (testEnv (Inr \<lparr>StatusCode = 200, Body = Inr ''{}''\<rparr>)) testClient
          ''GET'' ''v2/apps/app1'' None (Some [])) = Some ''{}''
   \<and> err (apiCall (testEnv (Inr \<lparr>StatusCode = 200, Body = Inr ''{}''\<rparr>)) testClient
          ''GET'' ''v2/apps/app1'' None None) = None
   \<and> EvUnmarshal \<notin> set (trace (apiCall (testEnv (Inr \<lparr>StatusCode = 200, Body = Inr ''{}''\<rparr>))
          testClient ''GET'' ''v2/apps/app1'' None None))"
proof -
  let ?resp = "\<lparr>StatusCode = 200, Body = Inr ''{}''\<rparr>"
  have d: "Do (testEnv (Inr ?resp)) (httpClient testClient)
             (addHeaders (testEnv (Inr ?resp)) testClient testRequest) = Inr ?resp"
    by (rule test_Do)
  have b: "Body ?resp = Inr ''{}''" and s1: "200 \<le> StatusCode ?resp"
    and s2: "StatusCode ?resp \<le> 299"
    by simp_all
  note inst = apiCall_success [OF test_GetMember test_marshalBody_None test_NewRequest d b s1 s2]
  from inst [of "Some []"] inst [of None] test_Unmarshal_ok [of "Inr ?resp" "[]"]
  show ?thesis by simp
qed

text \<open>
  Claim C2. When the exchange gives a status from 200 to 299 and there is a result object
  into which the body does not decode, \<^verbatim>\<open>apiCall\<close> returns \<^verbatim>\<open>ErrInvalidResponse\<close>,
  whatever the status in that range.
\<close>

theorem apiCall_decode_failure:
  assumes "GetMember env (cluster r) = (Inr marathon, cl)"
    and "marshalBody env body = Inr jsonBody"
    and "NewRequest env method (marathon @ ''/'' @ uri) jsonBody = Inr request0"
    and "Do env (httpClient r) (addHeaders env r request0) = Inr response"
    and "Body response = Inr respBody"
    and "200 \<le> StatusCode response" and "StatusCode response \<le> 299"
    and "Unmarshal env respBody v = (Some e, v')"
  shows "err (apiCall env r method uri body (Some v)) = Some ErrInvalidResponse"
  using assms(6-8)
  by (simp add: apiCall_exchanged [OF assms(1-5)] classify_def)

theorem apiCall_decode_failure_witness:
  "err (apiCall (testEnv (Inr \<lparr>StatusCode = 204, Body = Inr ''<html>''\<rparr>)) testClient
          ''GET'' ''v2/apps/app1'' None (Some [])) = Some ErrInvalidResponse"
proof -
  let ?resp = "\<lparr>StatusCode = 204, Body = Inr ''<html>''\<rparr>"
  have d: "Do (testEnv (Inr ?resp)) (httpClient testClient)
             (addHeaders (testEnv (Inr ?resp)) testClient testRequest) = Inr ?resp"
    by (rule test_Do)
  have b: "Body ?resp = Inr ''<html>''" and s1: "200 \<le> StatusCode ?resp"
    and s2: "StatusCode ?resp \<le> 299"
    by simp_all
  show ?thesis
    by (rule apiCall_decode_failure
          [OF test_GetMember test_marshalBody_None test_NewRequest d b s1 s2 test_Unmarshal_bad])
qed

subsection \<open>The other statuses\<close>

text \<open>
  Claim C3. For every method and path, when the exchange gives the status 404
  \<^verbatim>\<open>apiCall\<close> returns \<^verbatim>\<open>ErrDoesNotExist\<close>, and when it gives 409 \<^verbatim>\<open>apiCall\<close> returns
  \<^verbatim>\<open>ErrConflict\<close>.
\<close>

theorem apiCall_404_409:
  assumes "GetMember env (cluster r) = (Inr marathon, cl)"
    and "marshalBody env body = Inr jsonBody"
    and "NewRequest env method (marathon @ ''/'' @ uri) jsonBody = Inr request0"
    and "Do env (httpClient r) (addHeaders env r request0) = Inr response"
    and "Body response = Inr respBody"
  shows "(StatusCode response = 404 \<longrightarrow>
            err (apiCall env r method uri body result) = Some ErrDoesNotExist)
       \<and> (StatusCode response = 409 \<longrightarrow>
            err (apiCall env r method uri body result) = Some ErrConflict)"
  by (simp add: apiCall_exchanged [OF assms] classify_def)

theorem apiCall_404_409_witness:
  "err (apiCall (testEnv (Inr \<lparr>StatusCode = 404, Body = Inr ''not found''\<rparr>)) testClient
          ''GET'' ''v2/apps/app1'' None (Some [])) = Some ErrDoesNotExist
   \<and> err (apiCall (testEnv (Inr \<lparr>StatusCode = 409, Body = Inr ''exists''\<rparr>)) testClient
          ''GET'' ''v2/apps/app1'' None (Some [])) = Some ErrConflict"
proof -
  let ?r1 = "\<lparr>StatusCode = 404, Body = Inr ''not found''\<rparr>"
  let ?r2 = "\<lparr>StatusCode = 409, Body = Inr ''exists''\<rparr>"
  have d1: "Do (testEnv (Inr ?r1)) (httpClient testClient)
              (addHeaders (testEnv (Inr ?r1)) testClient testRequest) = Inr ?r1"
    by (rule test_Do)
  have d2: "Do (testEnv (Inr ?r2)) (httpClient testClient)
              (addHeaders (testEnv (Inr ?r2)) testClient testRequest) = Inr ?r2"
    by (rule test_Do)
  have b1: "Body ?r1 = Inr ''not found''" and b2: "Body ?r2 = Inr ''exists''"
    by simp_all
  from apiCall_404_409 [OF test_GetMember test_marshalBody_None test_NewRequest d1 b1, of "Some []"]
       apiCall_404_409 [OF test_GetMember test_marshalBody_None test_NewRequest d2 b2, of "Some []"]
  show ?thesis by simp
qed

text \<open>
  Claim C4. Whatever the status of the exchange, \<^verbatim>\<open>apiCall\<close> returns nil,
  \<^verbatim>\<open>ErrInvalidResponse\<close>, \<^verbatim>\<open>ErrDoesNotExist\<close> or \<^verbatim>\<open>ErrConflict\<close>; for a status outside 200
  to 299 other than 404 and 409, and so for every status from 500 on, it returns
  \<^verbatim>\<open>ErrInvalidResponse\<close>.
\<close>

theorem apiCall_status_total:
  assumes "GetMember env (cluster r) = (Inr marathon, cl)"
    and "marshalBody env body = Inr jsonBody"
    and "NewRequest env method (marathon @ ''/'' @ uri) jsonBody = Inr request0"
    and "Do env (httpClient r) (addHeaders env r request0) = Inr response"
    and "Body response = Inr respBody"
  shows "err (apiCall env r method uri body result)
           \<in> {None, Some ErrInvalidResponse, Some ErrDoesNotExist, Some ErrConflict}
       \<and> (\<not> (200 \<le> StatusCode response \<and> StatusCode response \<le> 299) \<and>
          StatusCode response \<noteq> 404 \<and> StatusCode response \<noteq> 409 \<longrightarrow>
            err (apiCall env r method uri body result) = Some ErrInvalidResponse)
       \<and> (500 \<le> StatusCode response \<longrightarrow>
            err (apiCall env r method uri body result) = Some ErrInvalidResponse)"
proof -
  let ?s = "StatusCode response"
  have out: "err (apiCall env r method uri body result) = fst (classify env ?s respBody result)"
    by (simp add: apiCall_exchanged [OF assms] split: prod.split)
  consider (success) "200 \<le> ?s" "?s \<le> 299"
    | (missing) "?s = 404"
    | (conflict) "?s = 409"
    | (other) "\<not> (200 \<le> ?s \<and> ?s \<le> 299)" "?s \<noteq> 404" "?s \<noteq> 409"
    by blast
  then show ?thesis
  proof cases
    case success
    then have "fst (classify env ?s respBody result) \<in> {None, Some ErrInvalidResponse}"
      by (cases result) (auto simp: classify_def split: prod.splits option.splits)
    with success show ?thesis unfolding out by auto
  next
    case missing
    then show ?thesis unfolding out by (simp add: classify_def)
  next
    case conflict
    then show ?thesis unfolding out by (simp add: classify_def)
  next
    case other
    then have "fst (classify env ?s respBody result) = Some ErrInvalidResponse"
      by (auto simp: classify_def)
    with other show ?thesis unfolding out by simp
  qed
qed

theorem apiCall_status_total_witness:
  "err (apiCall (testEnv (Inr \<lparr>StatusCode = 503, Body = Inr ''unavailable''\<rparr>)) testClient
          ''GET'' ''v2/apps/app1'' None (Some [])) = Some ErrInvalidResponse
   \<and> err (apiCall (testEnv (Inr \<lparr>StatusCode = 302, Body = Inr ''moved''\<rparr>)) testClient
          ''GET'' ''v2/apps/app1'' None (Some [])) = Some ErrInvalidResponse"
proof -
  let ?r1 = "\<lparr>StatusCode = 503, Body = Inr ''unavailable''\<rparr>"
  let ?r2 = "\<lparr>StatusCode = 302, Body = Inr ''moved''\<rparr>"
  have d1: "Do (testEnv (Inr ?r1)) (httpClient testClient)
              (addHeaders (testEnv (Inr ?r1)) testClient testRequest) = Inr ?r1"
    by (rule test_Do)
  have d2: "Do (testEnv (Inr ?r2)) (httpClient testClient)
              (addHeaders (testEnv (Inr ?r2)) testClient testRequest) = Inr ?r2"
    by (rule test_Do)
  have b1: "Body ?r1 = Inr ''unavailable''" and b2: "Body ?r2 = Inr ''moved''"
    by simp_all
  from apiCall_status_total
         [OF test_GetMember test_marshalBody_None test_NewRequest d1 b1, of "Some []"]
       apiCall_status_total
         [OF test_GetMember test_marshalBody_None test_NewRequest d2 b2, of "Some []"]
  show ?thesis by simp
qed

subsection \<open>Failures before a response\<close>

text \<open>
  Claim C5. If the cluster gives no member, \<^verbatim>\<open>apiCall\<close> returns the error of
  \<^verbatim>\<open>GetMember\<close> at once: the result object and nothing else is touched, and the only
  call made is the one to \<^verbatim>\<open>GetMember\<close> (no body is serialised, no request is built, no
  exchange takes place).
\<close>

theorem apiCall_no_member:
  assumes "GetMember env (cluster r) = (Inl e, cl)"
  shows "apiCall env r method uri body result =
           \<lparr>err = Some e, sink = result, clusterAfter = cl, trace = [EvGetMember]\<rparr>"
  using assms by (simp add: apiCall_def)

theorem apiCall_no_member_witness:
  "apiCall ((testEnv (Inr \<lparr>StatusCode = 200, Body = Inr ''{}''\<rparr>))
              \<lparr>GetMember := (\<lambda>n. (Inl ErrInvalidEndpoint, n))\<rparr>)
      testClient ''POST'' ''v2/apps'' (Some ''{}'') (Some [])
     = \<lparr>err = Some ErrInvalidEndpoint, sink = Some [], clusterAfter = 0,
        trace = [EvGetMember]\<rparr>"
proof -
  have "GetMember ((testEnv (Inr \<lparr>StatusCode = 200, Body = Inr ''{}''\<rparr>))
                     \<lparr>GetMember := (\<lambda>n. (Inl ErrInvalidEndpoint, n))\<rparr>) (cluster testClient)
          = (Inl ErrInvalidEndpoint, 0)"
    by (simp add: testClient_def)
  then show ?thesis by (rule apiCall_no_member)
qed

text \<open>
  Claim C6, as the code has it. With a member obtained and a body that is not nil and
  that \<^verbatim>\<open>json.Marshal\<close> fails to serialise, \<^verbatim>\<open>apiCall\<close> returns the error of
  \<^verbatim>\<open>json.Marshal\<close> itself, which is not \<^verbatim>\<open>ErrInvalidArgument\<close>; the result object is
  untouched and nothing is sent: no request is built and no exchange takes place.
\<close>

theorem apiCall_marshal_failure:
  assumes "GetMember env (cluster r) = (Inr marathon, cl)"
    and "Marshal env b = Inl e"
  shows "err (apiCall env r method uri (Some b) result) = Some (Foreign e)
       \<and> err (apiCall env r method uri (Some b) result) \<noteq> Some ErrInvalidArgument
       \<and> sink (apiCall env r method uri (Some b) result) = result
       \<and> trace (apiCall env r method uri (Some b) result) = [EvGetMember, EvMarshal]"
  using assms by (simp add: apiCall_def marshalBody_def Let_def)

theorem apiCall_marshal_failure_witness:
  "err (apiCall (testEnv (Inr \<lparr>StatusCode = 200, Body = Inr ''{}''\<rparr>)) testClient
          ''POST'' ''v2/apps'' (Some ''NaN'') None)
     = Some (Foreign (JSONError ''json: unsupported value: NaN''))
   \<and> trace (apiCall (testEnv (Inr \<lparr>StatusCode = 200, Body = Inr ''{}''\<rparr>)) testClient
          ''POST'' ''v2/apps'' (Some ''NaN'') None) = [EvGetMember, EvMarshal]"
proof -
  have m: "Marshal (testEnv (Inr \<lparr>StatusCode = 200, Body = Inr ''{}''\<rparr>)) ''NaN''
             = Inl (JSONError ''json: unsupported value: NaN'')"
    by (simp add: testEnv_def)
  from apiCall_marshal_failure [OF test_GetMember m, of "''POST''" "''v2/apps''" None]
  show ?thesis by simp
qed

text \<open>
  The claim as written fails: for a body that \<^verbatim>\<open>json.Marshal\<close> rejects, the error
  returned is the serialiser's, not \<^verbatim>\<open>ErrInvalidArgument\<close>.
\<close>

theorem apiCall_marshal_failure_counterexample:
  "Marshal (testEnv (Inr \<lparr>StatusCode = 200, Body = Inr ''{}''\<rparr>)) ''NaN''
     = Inl (JSONError ''json: unsupported value: NaN'')
   \<and> err (apiCall (testEnv (Inr \<lparr>StatusCode = 200, Body = Inr ''{}''\<rparr>)) testClient
          ''POST'' ''v2/apps'' (Some ''NaN'') None) \<noteq> Some ErrInvalidArgument"
  by (simp add: apiCall_def marshalBody_def testEnv_def testClient_def Let_def)

text \<open>
  Claim C7, as the code has it. When the exchange fails, as it does when the client's
  timeout expires (in \<^verbatim>\<open>httpClient.Do\<close>, or later while the body is read), \<^verbatim>\<open>apiCall\<close>
  returns the error of the HTTP client itself, which is not \<^verbatim>\<open>ErrTimeoutError\<close>, and
  the result object is left as it was.
\<close>

theorem apiCall_exchange_failure:
  assumes "GetMember env (cluster r) = (Inr marathon, cl)"
    and "marshalBody env body = Inr jsonBody"
    and "NewRequest env method (marathon @ ''/'' @ uri) jsonBody = Inr request0"
    and "Do env (httpClient r) (addHeaders env r request0) = Inl e
         \<or> (\<exists>response. Do env (httpClient r) (addHeaders env r request0) = Inr response
               \<and> Body response = Inl e)"
  shows "err (apiCall env r method uri body result) = Some (Foreign e)
       \<and> err (apiCall env r method uri body result) \<noteq> Some ErrTimeoutError
       \<and> sink (apiCall env r method uri body result) = result"
  using assms by (auto simp: apiCall_def Let_def)

theorem apiCall_exchange_failure_witness:
  "err (apiCall (testEnv (Inl (URLError ''Client.Timeout exceeded'' True))) testClient
          ''GET'' ''v2/apps/app1'' None (Some []))
     = Some (Foreign (URLError ''Client.Timeout exceeded'' True))
   \<and> sink (apiCall (testEnv (Inl (URLError ''Client.Timeout exceeded'' True))) testClient
          ''GET'' ''v2/apps/app1'' None (Some [])) = Some []
   \<and> err (apiCall (testEnv (Inr \<lparr>StatusCode = 200,
                                   Body = Inl (IOError ''Client.Timeout exceeded'' True)\<rparr>))
          testClient ''GET'' ''v2/apps/app1'' None (Some []))
     = Some (Foreign (IOError ''Client.Timeout exceeded'' True))"
proof -
  let ?e1 = "URLError ''Client.Timeout exceeded'' True"
  let ?e2 = "IOError ''Client.Timeout exceeded'' True"
  let ?resp = "\<lparr>StatusCode = 200, Body = Inl ?e2\<rparr>"
  have d1: "Do (testEnv (Inl ?e1)) (httpClient testClient)
              (addHeaders (testEnv (Inl ?e1)) testClient testRequest) = Inl ?e1
            \<or> (\<exists>response. Do (testEnv (Inl ?e1)) (httpClient testClient)
                  (addHeaders (testEnv (Inl ?e1)) testClient testRequest) = Inr response
                \<and> Body response = Inl ?e1)"
    by (simp add: test_Do)
  have d2: "Do (testEnv (Inr ?resp)) (httpClient testClient)
              (addHeaders (testEnv (Inr ?resp)) testClient testRequest) = Inl ?e2
            \<or> (\<exists>response. Do (testEnv (Inr ?resp)) (httpClient testClient)
                  (addHeaders (testEnv (Inr ?resp)) testClient testRequest) = Inr response
                \<and> Body response = Inl ?e2)"
    by (simp add: test_Do)
  from apiCall_exchange_failure
         [OF test_GetMember test_marshalBody_None test_NewRequest d1, of "Some []"]
       apiCall_exchange_failure
         [OF test_GetMember test_marshalBody_None test_NewRequest d2, of "Some []"]
  show ?thesis by simp
qed

text \<open>
  The claim as written fails: when \<^verbatim>\<open>httpClient.Do\<close> reports that the timeout was
  exceeded, \<^verbatim>\<open>apiCall\<close> returns that report and not \<^verbatim>\<open>ErrTimeoutError\<close>.
\<close>

theorem apiCall_timeout_counterexample:
  "Do (testEnv (Inl (URLError ''Client.Timeout exceeded'' True))) (httpClient testClient)
      (addHeaders (testEnv (Inl (URLError ''Client.Timeout exceeded'' True))) testClient
         testRequest)
     = Inl (URLError ''Client.Timeout exceeded'' True)
   \<and> err (apiCall (testEnv (Inl (URLError ''Client.Timeout exceeded'' True))) testClient
          ''GET'' ''v2/apps/app1'' None (Some [])) \<noteq> Some ErrTimeoutError"
  by (simp add: apiCall_def marshalBody_def NewRequest_def testEnv_def testClient_def Let_def)

subsection \<open>One attempt, and its request\<close>




text \<open>
  Claim C9. Every request that \<^verbatim>\<open>apiCall\<close> hands to \<^verbatim>\<open>httpClient.Do\<close> has the header
  Content-Type: application/json and the header Accept: application/json, and has an
  Authorization header (that of HTTP Basic authentication, for the configured user and
  password) exactly when the configured user name is not empty.
\<close>

theorem apiCall_request_headers:
  assumes "EvDo req \<in> set (trace (apiCall env r method uri body result))"
  shows "Header req ''Content-Type'' = Some [''application/json'']
       \<and> Header req ''Accept'' = Some [''application/json'']
       \<and> (Header req ''Authorization'' \<noteq> None) = (HTTPBasicAuthUser (config r) \<noteq> [])
       \<and> (HTTPBasicAuthUser (config r) \<noteq> [] \<longrightarrow>
            Header req ''Authorization'' =
              Some [''Basic '' @ basicAuth env (HTTPBasicAuthUser (config r))
                                     (HTTPBasicPassword (config r))])"
proof -
  from apiCall_Do_request [OF assms] obtain url b q
    where q: "NewRequest env method url b = Inr q" and req: "req = addHeaders env r q"
    by blast
  have "Header q = Map.empty" using q by (rule NewRequest_Header)
  then show ?thesis
    unfolding req by (simp add: addHeaders_Header)
qed

theorem apiCall_request_headers_witness:
  "EvDo (addHeaders (testEnv (Inr \<lparr>StatusCode = 200, Body = Inr ''{}''\<rparr>)) testClient testRequest)
     \<in> set (trace (apiCall (testEnv (Inr \<lparr>StatusCode = 200, Body = Inr ''{}''\<rparr>)) testClient
                      ''GET'' ''v2/apps/app1'' None None))
   \<and> Header (addHeaders (testEnv (Inr \<lparr>StatusCode = 200, Body = Inr ''{}''\<rparr>)) testClient
               testRequest) ''Content-Type'' = Some [''application/json'']
   \<and> Header (addHeaders (testEnv (Inr \<lparr>StatusCode = 200, Body = Inr ''{}''\<rparr>)) testClient
               testRequest) ''Accept'' = Some [''application/json'']
   \<and> Header (addHeaders (testEnv (Inr \<lparr>StatusCode = 200, Body = Inr ''{}''\<rparr>)) testClient
               testRequest) ''Authorization'' = Some [''Basic admin:secret'']"
proof -
  let ?env = "testEnv (Inr \<lparr>StatusCode = 200, Body = Inr ''{}''\<rparr>)"
  have d: "Do ?env (httpClient testClient) (addHeaders ?env testClient testRequest)
             = Inr \<lparr>StatusCode = 200, Body = Inr ''{}''\<rparr>"
    by (rule test_Do)
  have b: "Body \<lparr>StatusCode = 200, Body = Inr ''{}''\<rparr> = Inr ''{}''"
    by simp
  have h: "EvDo (addHeaders ?env testClient testRequest)
             \<in> set (trace (apiCall ?env testClient ''GET'' ''v2/apps/app1'' None None))"
    by (simp add: apiCall_exchanged [OF test_GetMember test_marshalBody_None test_NewRequest d b]
          split: prod.split)
  have u: "HTTPBasicAuthUser (config testClient) = ''admin''"
    and p: "HTTPBasicPassword (config testClient) = ''secret''"
    and a: "basicAuth ?env ''admin'' ''secret'' = ''admin:secret''"
    by (simp_all add: testClient_def testEnv_def)
  from apiCall_request_headers [OF h] h u p a show ?thesis by simp
qed

subsection \<open>Ping\<close>

text \<open>
  Claim C10. \<^verbatim>\<open>Ping\<close> returns true and nil when the GET of the ping path returns nil, and
  false and the error when it returns an error; so the bool is true exactly when the
  error is nil.
\<close>

theorem Ping_result:
  "(case err (apiCall env r ''GET'' (marathonAPIPing env) None None) of
      None \<Rightarrow> Ping env r = (True, None)
    | Some e \<Rightarrow> Ping env r = (False, Some e))
   \<and> fst (Ping env r) = (snd (Ping env r) = None)"
proof (cases "err (apiCall env r ''GET'' (marathonAPIPing env) None None)")
  case None
  then have "Ping env r = (True, None)"
    by (simp add: Ping_def apiGet_def)
  with None show ?thesis by simp
next
  case (Some e)
  then have "Ping env r = (False, Some e)"
    by (simp add: Ping_def apiGet_def)
  with Some show ?thesis by simp
qed

theorem Ping_result_witness:
  "Ping (testEnv (Inr \<lparr>StatusCode = 200, Body = Inr ''pong''\<rparr>)) testClient = (True, None)
   \<and> Ping (testEnv (Inr \<lparr>StatusCode = 404, Body = Inr []\<rparr>)) testClient
       = (False, Some ErrDoesNotExist)"
proof -
  have e1: "err (apiCall (testEnv (Inr \<lparr>StatusCode = 200, Body = Inr ''pong''\<rparr>)) testClient
                   ''GET'' (marathonAPIPing (testEnv (Inr \<lparr>StatusCode = 200, Body = Inr ''pong''\<rparr>)))
                   None None) = None"
    by (simp add: apiCall_def marshalBody_def NewRequest_def classify_def testEnv_def
          testClient_def Let_def)
  have e2: "err (apiCall (testEnv (Inr \<lparr>StatusCode = 404, Body = Inr []\<rparr>)) testClient
                   ''GET'' (marathonAPIPing (testEnv (Inr \<lparr>StatusCode = 404, Body = Inr []\<rparr>)))
                   None None) = Some ErrDoesNotExist"
    by (simp add: apiCall_def marshalBody_def NewRequest_def classify_def testEnv_def
          testClient_def Let_def)
  from Ping_result [of "testEnv (Inr \<lparr>StatusCode = 200, Body = Inr ''pong''\<rparr>)" testClient]
       Ping_result [of "testEnv (Inr \<lparr>StatusCode = 404, Body = Inr []\<rparr>)" testClient]
       e1 e2
  show ?thesis by simp
qed

end
